theory Spec2Isabelle
  imports Main "HOL-Library.AList" "HOL-Library.Sublist" "HOL-Library.Word"
begin

section \<open>Python values\<close>

text \<open>
  The two modules \<^verbatim>\<open>trashmail_api.py\<close> and \<^verbatim>\<open>failing_opaque_code.py\<close> handle
  strings, byte strings, the values that \<^verbatim>\<open>json\<close> parsing yields, and dictionaries keyed by
  strings. A float is a mantissa and a binary exponent, an infinity or a NaN; only its
  truth value (zero or not) is ever inspected. A dictionary is an association list in
  insertion order; a well-formed one has distinct keys. Strings are lists of 8-bit
  characters, so characters beyond U+00FF are outside the model.
\<close>

type_synonym bytes = "8 word list"

datatype pyfloat = Finite int int | FInf bool | FNaN

datatype pyval =
    PNone
  | PBool bool
  | PInt int
  | PFloat pyfloat
  | PStr string
  | PBytes bytes
  | PList "pyval list"
  | PDict "(string \<times> pyval) list"

type_synonym pydict = "(string \<times> pyval) list"

text \<open>Truth value testing (\<^verbatim>\<open>if x\<close>, \<^verbatim>\<open>not x\<close>, \<^verbatim>\<open>bool(x)\<close>).\<close>

fun truthy :: "pyval \<Rightarrow> bool" where
  "truthy PNone = False"
| "truthy (PBool b) = b"
| "truthy (PInt i) = (i \<noteq> 0)"
| "truthy (PFloat (Finite m e)) = (m \<noteq> 0)"
| "truthy (PFloat (FInf s)) = True"
| "truthy (PFloat FNaN) = True"
| "truthy (PStr s) = (s \<noteq> [])"
| "truthy (PBytes b) = (b \<noteq> [])"
| "truthy (PList xs) = (xs \<noteq> [])"
| "truthy (PDict kvs) = (kvs \<noteq> [])"

fun type_name :: "pyval \<Rightarrow> string" where
  "type_name PNone = ''NoneType''"
| "type_name (PBool b) = ''bool''"
| "type_name (PInt i) = ''int''"
| "type_name (PFloat f) = ''float''"
| "type_name (PStr s) = ''str''"
| "type_name (PBytes b) = ''bytes''"
| "type_name (PList xs) = ''list''"
| "type_name (PDict kvs) = ''dict''"

text \<open>\<^verbatim>\<open>a or b\<close>: the first operand when it is truthy, the second otherwise.\<close>

definition py_or :: "pyval \<Rightarrow> pyval \<Rightarrow> pyval" where
  "py_or a b = (if truthy a then a else b)"

text \<open>\<^verbatim>\<open>s.startswith(p)\<close> on strings.\<close>

definition startswith :: "string \<Rightarrow> string \<Rightarrow> bool" where
  "startswith s p = prefix p s"

text \<open>
  \<^verbatim>\<open>d.update(e)\<close> and \<^verbatim>\<open>{**d, **e}\<close>: the items of \<open>e\<close> are stored into \<open>d\<close> one after the
  other; a key already present keeps its place and takes the new value.
\<close>

definition dict_update :: "pydict \<Rightarrow> pydict \<Rightarrow> pydict" where
  "dict_update d e = fold (\<lambda>(k, v). AList.update k v) e d"

definition has_key :: "pydict \<Rightarrow> string \<Rightarrow> bool" where
  "has_key d k = (map_of d k \<noteq> None)"

section \<open>Responses, exceptions, sessions\<close>

text \<open>
  The \<^verbatim>\<open>requests\<close> library is outside the repository. A response is characterised by
  what its \<^verbatim>\<open>json()\<close> method does: it returns the parsed value or raises an exception,
  given by the name of its class and its message. \<^verbatim>\<open>requests.exceptions.JSONDecodeError\<close>
  is the class both modules import as \<^verbatim>\<open>RequestsJSONDecodeError\<close>.
\<close>

datatype json_outcome = Parsed pyval | Raised string string

record response =
  json_result :: json_outcome

text \<open>
  Exceptions: the module's own \<^verbatim>\<open>TrashMailAPIError(message, error_code, response)\<close>, and
  every other subclass of \<^verbatim>\<open>Exception\<close> by class name and \<^verbatim>\<open>str()\<close>. Interrupts
  (\<^verbatim>\<open>BaseException\<close> outside \<^verbatim>\<open>Exception\<close>) are not modelled.
\<close>

datatype exn =
    TrashMailAPIError (message: pyval) (error_code: pyval) (exn_response: "response option")
  | PyException (exc_class: string) (exc_str: string)

definition RequestsJSONDecodeError :: string where
  "RequestsJSONDecodeError = ''requests.exceptions.JSONDecodeError''"

definition quoted :: "string \<Rightarrow> string" where
  "quoted s = [CHR 0x27] @ s @ [CHR 0x27]"

definition AttributeError :: "pyval \<Rightarrow> string \<Rightarrow> exn" where
  "AttributeError obj attr =
     PyException ''AttributeError''
       (quoted (type_name obj) @ '' object has no attribute '' @ quoted attr)"

definition KeyError :: "string \<Rightarrow> exn" where
  "KeyError k = PyException ''KeyError'' (quoted k)"

definition TypeError :: "string \<Rightarrow> exn" where
  "TypeError msg = PyException ''TypeError'' msg"

definition ValueError :: "string \<Rightarrow> exn" where
  "ValueError msg = PyException ''ValueError'' msg"

definition NameError :: "string \<Rightarrow> exn" where
  "NameError n = PyException ''NameError'' (''name '' @ quoted n @ '' is not defined'')"

text \<open>\<^verbatim>\<open>obj.get(key, default)\<close>: only a dictionary has the method.\<close>

definition py_get :: "pyval \<Rightarrow> string \<Rightarrow> pyval \<Rightarrow> exn + pyval" where
  "py_get obj key dflt =
     (case obj of
        PDict kvs \<Rightarrow> Inr (case map_of kvs key of Some v \<Rightarrow> v | None \<Rightarrow> dflt)
      | _ \<Rightarrow> Inl (AttributeError obj ''get''))"

text \<open>\<^verbatim>\<open>obj[key]\<close> with a string key.\<close>

definition py_index :: "pyval \<Rightarrow> string \<Rightarrow> exn + pyval" where
  "py_index obj key =
     (case obj of
        PDict kvs \<Rightarrow> (case map_of kvs key of Some v \<Rightarrow> Inr v | None \<Rightarrow> Inl (KeyError key))
      | PStr s \<Rightarrow> Inl (TypeError ''string indices must be integers'')
      | PBytes b \<Rightarrow> Inl (TypeError ''byte indices must be integers or slices, not str'')
      | PList xs \<Rightarrow> Inl (TypeError ''list indices must be integers or slices, not str'')
      | _ \<Rightarrow> Inl (TypeError (quoted (type_name obj) @ '' object is not subscriptable'')))"

text \<open>\<^verbatim>\<open>response.json()\<close> as a result value.\<close>

definition response_json :: "response \<Rightarrow> exn + pyval" where
  "response_json r =
     (case json_result r of Parsed v \<Rightarrow> Inr v | Raised cls msg \<Rightarrow> Inl (PyException cls msg))"

text \<open>
  A \<^verbatim>\<open>requests.Session\<close> carries a cookie jar; a new one is empty.
  \<^verbatim>\<open>session.post(url=..., params=..., json=...)\<close> is the environment: given the session and
  the arguments it returns a response or raises, and leaves the session's cookies as the
  exchange left them.
\<close>

record session =
  cookies :: pydict

definition requests_Session :: session where
  "requests_Session = \<lparr>cookies = []\<rparr>"

record url_params =
  url :: string
  params :: pydict

record request =
  req_url :: string
  req_params :: pydict
  req_json :: pyval

definition post_args :: "url_params \<Rightarrow> pyval \<Rightarrow> request" where
  "post_args b j = \<lparr>req_url = url b, req_params = params b, req_json = j\<rparr>"

type_synonym http = "session \<Rightarrow> request \<Rightarrow> (exn + response) \<times> session"

section \<open>\<^verbatim>\<open>trashmail_api.py\<close>: the client\<close>

text \<open>
  The object's attributes; \<open>p_authenticated\<close> and \<open>p_username\<close> are the private
  \<^verbatim>\<open>_authenticated\<close> and \<^verbatim>\<open>_username\<close>. The constructor and the two properties follow.
\<close>

record client =
  base_url :: string
  lang :: string
  session :: session
  p_authenticated :: bool
  p_username :: "string option"

definition TrashMailClient :: "string \<Rightarrow> string \<Rightarrow> client" where
  "TrashMailClient b l =
     \<lparr>base_url = b, lang = l, session = requests_Session,
      p_authenticated = False, p_username = None\<rparr>"

definition is_authenticated :: "client \<Rightarrow> bool" where
  "is_authenticated c = p_authenticated c"

definition username :: "client \<Rightarrow> string option" where
  "username c = p_username c"

text \<open>
  A call that gives a function its named parameters and further keyword arguments: a
  keyword that bears the name of a parameter already given is refused with \<^verbatim>\<open>TypeError\<close>
  before the body runs; the first such keyword is the one reported. (The wording of the
  message varies with the Python version and with how the parameter was given.)
\<close>

definition keyword_clash :: "string \<Rightarrow> string list \<Rightarrow> pydict \<Rightarrow> exn option" where
  "keyword_clash fname names kwargs =
     (case find (\<lambda>k. k \<in> set names) (map fst kwargs) of
        None \<Rightarrow> None
      | Some k \<Rightarrow>
          Some (TypeError (fname @ ''() got multiple values for argument '' @ quoted k)))"

text \<open>
  \<^verbatim>\<open>_build_url(self, cmd, api=True, **extra_params)\<close>, called with \<open>cmd\<close>, \<open>api\<close> and the
  further keyword arguments \<open>extra_params\<close>: a keyword named \<^verbatim>\<open>self\<close>, \<^verbatim>\<open>cmd\<close> or \<^verbatim>\<open>api\<close>
  never reaches the dictionary \<^verbatim>\<open>extra_params\<close>, the call raises instead.
\<close>

definition TrashMailClient_build_url :: "client \<Rightarrow> string \<Rightarrow> bool \<Rightarrow> pydict \<Rightarrow> exn + url_params" where
  "TrashMailClient_build_url c cmd api extra_params =
     (case keyword_clash ''TrashMailClient._build_url'' [''self'', ''cmd'', ''api''] extra_params of
        Some e \<Rightarrow> Inl e
      | None \<Rightarrow>
          (let p0 = [(''lang'', PStr (lang c))];
               p1 = (if api then AList.update ''api'' (PInt 1) p0 else p0);
               p2 = (if cmd \<noteq> [] then AList.update ''cmd'' (PStr cmd) p1 else p1);
               p3 = dict_update p2 extra_params
           in Inr \<lparr>url = base_url c @ ''/'', params = p3\<rparr>))"

text \<open>
  \<^verbatim>\<open>_safe_json(self, response)\<close>: the \<^verbatim>\<open>except\<close> clause catches the class
  \<^verbatim>\<open>RequestsJSONDecodeError\<close> only; any other exception of \<^verbatim>\<open>json()\<close> propagates.
\<close>

definition TrashMailClient_safe_json :: "response \<Rightarrow> exn + pyval" where
  "TrashMailClient_safe_json r =
     (case response_json r of
        Inr v \<Rightarrow> Inr v
      | Inl (PyException cls msg) \<Rightarrow>
          if cls = RequestsJSONDecodeError then Inr PNone else Inl (PyException cls msg)
      | Inl e \<Rightarrow> Inl e)"

text \<open>
  \<^verbatim>\<open>is_pat_token(password)\<close>: the conjunction is truthy when the argument is truthy, is a
  string, starts with \<^verbatim>\<open>tmpat_\<close> and is longer than six characters.
\<close>

definition is_pat_token :: "pyval \<Rightarrow> bool" where
  "is_pat_token password =
     (truthy password \<and>
      (case password of
         PStr s \<Rightarrow> startswith s ''tmpat_'' \<and> length s > 6
       | _ \<Rightarrow> False))"

text \<open>
  Every method returns its result (a value or the exception raised), the object as the
  call left it, and the requests it posted, in order.
\<close>

type_synonym 'a outcome = "(exn + 'a) \<times> client \<times> request list"

text \<open>\<^verbatim>\<open>check_auth_methods(self, username)\<close>: every exception ends in the default answer.\<close>

definition check_auth_methods :: "http \<Rightarrow> client \<Rightarrow> string \<Rightarrow> pyval outcome" where
  "check_auth_methods http c user =
     (case TrashMailClient_build_url c ''opaque_check'' True [] of
        Inl e \<Rightarrow>
          (Inr (PDict [(''opaque_enabled'', PBool False), (''srp_enabled'', PBool False),
                       (''migration_available'', PBool False)]), c, [])
      | Inr built \<Rightarrow>
      let req = post_args built (PDict [(''username'', PStr user)]);
          (out, s') = http (session c) req;
          c' = c\<lparr>session := s'\<rparr>;
          failed = PDict [(''opaque_enabled'', PBool False), (''srp_enabled'', PBool False),
                          (''migration_available'', PBool False)]
      in case out of
           Inl e \<Rightarrow> (Inr failed, c', [req])
         | Inr resp \<Rightarrow>
             (case TrashMailClient_safe_json resp of
                Inl e \<Rightarrow> (Inr failed, c', [req])
              | Inr parsed \<Rightarrow>
                  (let result = py_or parsed (PDict []) in
                   case py_get result ''opaque_enabled'' (PBool False) of
                     Inl e \<Rightarrow> (Inr failed, c', [req])
                   | Inr oe \<Rightarrow>
                   case py_get result ''srp_enabled'' (PBool False) of
                     Inl e \<Rightarrow> (Inr failed, c', [req])
                   | Inr se \<Rightarrow>
                   case py_get result ''migration_available'' (PBool False) of
                     Inl e \<Rightarrow> (Inr failed, c', [req])
                   | Inr ma \<Rightarrow>
                       (Inr (PDict [(''opaque_enabled'', oe), (''srp_enabled'', se),
                                    (''migration_available'', ma)]), c', [req]))))"

text \<open>
  \<^verbatim>\<open>login(self, username, password)\<close>. \<open>login_try\<close> is the body of the \<^verbatim>\<open>try\<close>
  statement, \<open>login_except\<close> its two handlers: a \<^verbatim>\<open>TrashMailAPIError\<close> is raised again,
  any other exception becomes a \<^verbatim>\<open>TrashMailAPIError\<close> whose message quotes it.
\<close>

definition login_try :: "http \<Rightarrow> client \<Rightarrow> string \<Rightarrow> string \<Rightarrow> bool outcome" where
  "login_try http c user password =
     (case TrashMailClient_build_url c ''login'' True [] of
        Inl e \<Rightarrow> (Inl e, c, [])
      | Inr built \<Rightarrow>
      let req = post_args built
                  (PDict [(''fe-login-user'', PStr user), (''fe-login-pass'', PStr password)]);
          (out, s') = http (session c) req;
          c1 = c\<lparr>session := s'\<rparr>
      in case out of
           Inl e \<Rightarrow> (Inl e, c1, [req])
         | Inr resp \<Rightarrow>
             (case TrashMailClient_safe_json resp of
                Inl e \<Rightarrow> (Inl e, c1, [req])
              | Inr result \<Rightarrow>
                  if \<not> truthy result
                  then (Inl (TrashMailAPIError (PStr ''Invalid response from server'') PNone None),
                        c1, [req])
                  else
                   (case py_get result ''success'' PNone of
                      Inl e \<Rightarrow> (Inl e, c1, [req])
                    | Inr success \<Rightarrow>
                        if truthy success
                        then
                          (let c2 = c1\<lparr>p_authenticated := True, p_username := Some user\<rparr> in
                           case py_get result ''data'' (PDict []) of
                             Inl e \<Rightarrow> (Inl e, c2, [req])
                           | Inr data \<Rightarrow>
                               (case py_get data ''requires_2fa'' PNone of
                                  Inl e \<Rightarrow> (Inl e, c2, [req])
                                | Inr r2fa \<Rightarrow>
                                    if truthy r2fa then (Inr False, c2, [req])
                                    else (Inr True, c2, [req])))
                        else
                          (case py_get result ''msg'' (PStr ''Login failed'') of
                             Inl e \<Rightarrow> (Inl e, c1, [req])
                           | Inr error_msg \<Rightarrow>
                               (case py_get result ''error_code'' PNone of
                                  Inl e \<Rightarrow> (Inl e, c1, [req])
                                | Inr code \<Rightarrow>
                                    (Inl (TrashMailAPIError error_msg code (Some resp)),
                                     c1, [req]))))))"

fun login_except :: "exn \<Rightarrow> exn" where
  "login_except (TrashMailAPIError m code r) = TrashMailAPIError m code r"
| "login_except (PyException cls msg) =
     TrashMailAPIError (PStr (''Login error: '' @ msg)) PNone None"

definition login :: "http \<Rightarrow> client \<Rightarrow> string \<Rightarrow> string \<Rightarrow> bool outcome" where
  "login http c user password =
     (case login_try http c user password of
        (Inl e, c', reqs) \<Rightarrow> (Inl (login_except e), c', reqs)
      | (Inr b, c', reqs) \<Rightarrow> (Inr b, c', reqs))"

text \<open>\<^verbatim>\<open>login_with_pat(self, username, pat_token)\<close>.\<close>

definition login_with_pat :: "http \<Rightarrow> client \<Rightarrow> string \<Rightarrow> string \<Rightarrow> bool outcome" where
  "login_with_pat http c user pat_token =
     (if \<not> startswith pat_token ''tmpat_''
      then (Inl (ValueError (''Invalid PAT format. Must start with '' @ quoted ''tmpat_'')), c, [])
      else login http c user pat_token)"

text \<open>
  \<^verbatim>\<open>api_call(self, cmd, **params)\<close>: the keyword arguments are the JSON body. The method has
  no \<^verbatim>\<open>try\<close>: an exception of the post, of \<^verbatim>\<open>json()\<close> or of \<^verbatim>\<open>.get\<close> on a response that
  is no dictionary propagates as it is.
\<close>

definition api_call :: "http \<Rightarrow> client \<Rightarrow> string \<Rightarrow> pydict \<Rightarrow> pyval outcome" where
  "api_call http c cmd kwargs =
     (if \<not> p_authenticated c
      then (Inl (TrashMailAPIError (PStr ''Not authenticated. Call login() first.'') PNone None),
            c, [])
      else
       (case TrashMailClient_build_url c cmd True [] of
          Inl e \<Rightarrow> (Inl e, c, [])
        | Inr built \<Rightarrow>
        let req = post_args built (PDict kwargs);
            (out, s') = http (session c) req;
            c1 = c\<lparr>session := s'\<rparr>
        in case out of
             Inl e \<Rightarrow> (Inl e, c1, [req])
           | Inr resp \<Rightarrow>
               (case TrashMailClient_safe_json resp of
                  Inl e \<Rightarrow> (Inl e, c1, [req])
                | Inr result \<Rightarrow>
                    if \<not> truthy result
                    then (Inl (TrashMailAPIError (PStr ''Invalid response from server'') PNone None),
                          c1, [req])
                    else
                     (case py_get result ''success'' (PBool True) of
                        Inl e \<Rightarrow> (Inl e, c1, [req])
                      | Inr success \<Rightarrow>
                          if \<not> truthy success
                          then
                            (case py_get result ''msg'' (PStr ''API call failed'') of
                               Inl e \<Rightarrow> (Inl e, c1, [req])
                             | Inr error_msg \<Rightarrow>
                                 (case py_get result ''error_code'' PNone of
                                    Inl e \<Rightarrow> (Inl e, c1, [req])
                                  | Inr code \<Rightarrow>
                                      (Inl (TrashMailAPIError error_msg code (Some resp)),
                                       c1, [req])))
                          else (Inr result, c1, [req])))))"

text \<open>\<^verbatim>\<open>get_deas(self)\<close>.\<close>

definition get_deas :: "http \<Rightarrow> client \<Rightarrow> pyval outcome" where
  "get_deas http c =
     (case api_call http c ''read_dea'' [] of
        (Inl e, c', reqs) \<Rightarrow> (Inl e, c', reqs)
      | (Inr result, c', reqs) \<Rightarrow> (py_get result ''data'' (PList []), c', reqs))"

text \<open>
  \<^verbatim>\<open>create_dea(self, real_email, **options)\<close>. The call \<^verbatim>\<open>self.api_call("save_dea", **params)\<close>
  passes every item of \<^verbatim>\<open>params\<close> as a keyword argument, so an option named \<^verbatim>\<open>cmd\<close> meets
  the positional argument of \<^verbatim>\<open>api_call\<close> and the call itself raises \<^verbatim>\<open>TypeError\<close>. (An
  option named \<^verbatim>\<open>self\<close> or \<^verbatim>\<open>real_email\<close> cannot reach the body of \<^verbatim>\<open>create_dea\<close>.)
\<close>

definition create_dea :: "http \<Rightarrow> client \<Rightarrow> string \<Rightarrow> pydict \<Rightarrow> pyval outcome" where
  "create_dea http c real_email options =
     (let kwargs = dict_update [(''realemail'', PStr real_email)] options in
      if has_key kwargs ''cmd''
      then (Inl (TypeError (''TrashMailClient.api_call() got multiple values for argument ''
                            @ quoted ''cmd'')), c, [])
      else
       (case api_call http c ''save_dea'' kwargs of
          (Inl e, c', reqs) \<Rightarrow> (Inl e, c', reqs)
        | (Inr result, c', reqs) \<Rightarrow> (py_get result ''data'' (PDict []), c', reqs)))"

text \<open>
  \<^verbatim>\<open>logout(self)\<close>: whatever \<^verbatim>\<open>api_call\<close> returns or raises is dropped; then the three
  attributes are reset.
\<close>

definition logout :: "http \<Rightarrow> client \<Rightarrow> bool outcome" where
  "logout http c =
     (case api_call http c ''logout'' [] of
        (r, c1, reqs) \<Rightarrow>
          (Inr True,
           c1\<lparr>p_authenticated := False, p_username := None, session := requests_Session\<rparr>,
           reqs))"

section \<open>\<^verbatim>\<open>base64\<close> and \<^verbatim>\<open>binascii\<close>\<close>

text \<open>
  The standard library's base64 functions, as CPython implements them.
  \<^verbatim>\<open>binascii.b2a_base64\<close> (without the newline) turns three bytes into four characters of
  the alphabet and pads the last group with \<^verbatim>\<open>=\<close>.
\<close>

definition base64_alphabet :: string where
  "base64_alphabet = ''ABCDEFGHIJKLMNOPQRSTUVWXYZabcdefghijklmnopqrstuvwxyz0123456789+/''"

definition b2a_char :: "nat \<Rightarrow> char" where
  "b2a_char i = base64_alphabet ! i"

fun binascii_b2a_base64 :: "bytes \<Rightarrow> string" where
  "binascii_b2a_base64 [] = []"
| "binascii_b2a_base64 [a] =
     [b2a_char (unat a div 4), b2a_char ((unat a mod 4) * 16), CHR ''='', CHR ''='']"
| "binascii_b2a_base64 [a, b] =
     [b2a_char (unat a div 4), b2a_char ((unat a mod 4) * 16 + unat b div 16),
      b2a_char ((unat b mod 16) * 4), CHR ''='']"
| "binascii_b2a_base64 (a # b # c # rest) =
     [b2a_char (unat a div 4), b2a_char ((unat a mod 4) * 16 + unat b div 16),
      b2a_char ((unat b mod 16) * 4 + unat c div 64), b2a_char (unat c mod 64)]
     @ binascii_b2a_base64 rest"

text \<open>
  \<^verbatim>\<open>binascii.a2b_base64\<close> in its default, non-strict mode: the loop over the input keeps the
  position in the current group of four, the bits left over, and the count of padding
  characters seen. A character outside the alphabet is skipped; padding that completes a
  group ends the decoding; a group left unfinished at the end is an error.
\<close>

definition a2b_value :: "char \<Rightarrow> nat option" where
  "a2b_value ch = map_of (zip base64_alphabet [0..<64]) ch"

fun digits :: "nat \<Rightarrow> string" where
  "digits n =
     (if n < 10 then [char_of (48 + n)] else digits (n div 10) @ [char_of (48 + n mod 10)])"

definition binascii_Error :: "string \<Rightarrow> exn" where
  "binascii_Error msg = PyException ''binascii.Error'' msg"

fun a2b_loop :: "string \<Rightarrow> nat \<Rightarrow> nat \<Rightarrow> nat \<Rightarrow> bytes \<Rightarrow> exn + bytes" where
  "a2b_loop [] quad_pos leftchar pad_count out =
     (if quad_pos \<noteq> 0
      then (if quad_pos = 1
            then Inl (binascii_Error
                   (''Invalid base64-encoded string: number of data characters (''
                    @ digits (length out div 3 * 4 + 1)
                    @ '') cannot be 1 more than a multiple of 4''))
            else Inl (binascii_Error ''Incorrect padding''))
      else Inr out)"
| "a2b_loop (ch # rest) quad_pos leftchar pad_count out =
     (if ch = CHR ''=''
      then (if quad_pos \<ge> 2 \<and> quad_pos + (pad_count + 1) \<ge> 4
            then Inr out
            else a2b_loop rest quad_pos leftchar
                   (if quad_pos \<ge> 2 then pad_count + 1 else pad_count) out)
      else
       (case a2b_value ch of
          None \<Rightarrow> a2b_loop rest quad_pos leftchar pad_count out
        | Some v \<Rightarrow>
            if quad_pos = 0 then a2b_loop rest 1 v 0 out
            else if quad_pos = 1
              then a2b_loop rest 2 (v mod 16) 0 (out @ [of_nat (leftchar * 4 + v div 16)])
            else if quad_pos = 2
              then a2b_loop rest 3 (v mod 4) 0 (out @ [of_nat (leftchar * 16 + v div 4)])
            else a2b_loop rest 0 0 0 (out @ [of_nat (leftchar * 64 + v)])))"

definition binascii_a2b_base64 :: "string \<Rightarrow> exn + bytes" where
  "binascii_a2b_base64 s = a2b_loop s 0 0 0 []"

text \<open>
  \<^verbatim>\<open>base64.b64decode(s)\<close> with its defaults (\<^verbatim>\<open>validate=False\<close>): a string is encoded as
  ASCII first, then decoded non-strictly. The URL-safe functions translate \<^verbatim>\<open>-\<close> and
  \<^verbatim>\<open>_\<close> from and to \<^verbatim>\<open>+\<close> and \<^verbatim>\<open>/\<close> around the standard ones.
\<close>

definition is_ascii :: "string \<Rightarrow> bool" where
  "is_ascii s = list_all (\<lambda>ch. (of_char ch :: nat) < 128) s"

definition base64_b64decode :: "string \<Rightarrow> exn + bytes" where
  "base64_b64decode s =
     (if is_ascii s then binascii_a2b_base64 s
      else Inl (ValueError ''string argument should contain only ASCII characters''))"

definition urlsafe_decode_translation :: "char \<Rightarrow> char" where
  "urlsafe_decode_translation ch =
     (if ch = CHR ''-'' then CHR ''+'' else if ch = CHR ''_'' then CHR ''/'' else ch)"

definition urlsafe_encode_translation :: "char \<Rightarrow> char" where
  "urlsafe_encode_translation ch =
     (if ch = CHR ''+'' then CHR ''-'' else if ch = CHR ''/'' then CHR ''_'' else ch)"

definition base64_urlsafe_b64decode :: "string \<Rightarrow> exn + bytes" where
  "base64_urlsafe_b64decode s =
     (if is_ascii s then base64_b64decode (map urlsafe_decode_translation s)
      else Inl (ValueError ''string argument should contain only ASCII characters''))"

definition base64_urlsafe_b64encode :: "bytes \<Rightarrow> string" where
  "base64_urlsafe_b64encode data = map urlsafe_encode_translation (binascii_b2a_base64 data)"

section \<open>\<^verbatim>\<open>failing_opaque_code.py\<close>\<close>

text \<open>
  The module's two constants come from the process environment when it is imported.
  Its functions act on a session, not on a client object; each returns its result, the
  session as it left it, and the requests it posted.
\<close>

record config =
  API_BASE_URL :: string
  DEFAULT_LANG :: string

definition OPAQUE_CONTEXT :: bytes where
  "OPAQUE_CONTEXT = map of_char ''pat_opaque_auth''"

text \<open>
  \<^verbatim>\<open>build_url(api=True, lang='en', cmd=None, **paramss)\<close>, called with \<open>api\<close>, \<open>lang\<close>,
  \<open>cmd\<close> and the further keyword arguments \<open>paramss\<close>: all three names are parameters, so
  a further keyword named \<^verbatim>\<open>api\<close>, \<^verbatim>\<open>lang\<close> or \<^verbatim>\<open>cmd\<close> makes the call raise.
\<close>

definition build_url :: "config \<Rightarrow> bool \<Rightarrow> string \<Rightarrow> string option \<Rightarrow> pydict \<Rightarrow> exn + url_params" where
  "build_url cfg api lng cmd paramss =
     (case keyword_clash ''build_url'' [''api'', ''lang'', ''cmd''] paramss of
        Some e \<Rightarrow> Inl e
      | None \<Rightarrow>
          (let p0 = [(''lang'', PStr lng)];
               p1 = (if api then AList.update ''api'' (PInt (of_bool api)) p0 else p0);
               p2 = (case cmd of
                       None \<Rightarrow> p1
                     | Some name \<Rightarrow>
                         if name \<noteq> [] then AList.update ''cmd'' (PStr name) p1 else p1)
           in Inr \<lparr>url = API_BASE_URL cfg @ ''/'', params = dict_update p2 paramss\<rparr>))"

text \<open>\<^verbatim>\<open>_safe_json(response)\<close>.\<close>

definition safe_json :: "response \<Rightarrow> exn + pyval" where
  "safe_json r =
     (case response_json r of
        Inr v \<Rightarrow> Inr v
      | Inl (PyException cls msg) \<Rightarrow>
          if cls = RequestsJSONDecodeError then Inr PNone else Inl (PyException cls msg)
      | Inl e \<Rightarrow> Inl e)"

text \<open>\<^verbatim>\<open>is_pat_token(password)\<close>, the same text as in \<^verbatim>\<open>trashmail_api.py\<close>.\<close>

definition opaque_is_pat_token :: "pyval \<Rightarrow> bool" where
  "opaque_is_pat_token password =
     (truthy password \<and>
      (case password of
         PStr s \<Rightarrow> startswith s ''tmpat_'' \<and> length s > 6
       | _ \<Rightarrow> False))"

text \<open>\<^verbatim>\<open>_b64encode(data)\<close> and \<^verbatim>\<open>_b64decode(data)\<close>.\<close>

definition rstrip_pad :: "string \<Rightarrow> string" where
  "rstrip_pad s = rev (dropWhile (\<lambda>ch. ch = CHR ''='') (rev s))"

definition b64encode :: "bytes \<Rightarrow> string" where
  "b64encode data = rstrip_pad (base64_urlsafe_b64encode data)"

definition b64decode :: "string \<Rightarrow> exn + bytes" where
  "b64decode data =
     (let padded = data @ replicate ((4 - length data mod 4) mod 4) (CHR ''='') in
      case base64_b64decode padded of
        Inr b \<Rightarrow> Inr b
      | Inl e \<Rightarrow> base64_urlsafe_b64decode padded)"

text \<open>
  The names the module binds at its top level (imports, assignments, function
  definitions). A global name that is neither bound here nor a builtin raises
  \<^verbatim>\<open>NameError\<close> where it is evaluated. \<^verbatim>\<open>HTTPError\<close> and \<^verbatim>\<open>legacy_login\<close>, which the module
  uses, are no builtins.
\<close>

definition module_globals :: "string list" where
  "module_globals =
     [''base64'', ''time'', ''logging'', ''os'', ''Path'', ''Optional'', ''requests'',
      ''RequestsJSONDecodeError'', ''API_BASE_URL'', ''DEFAULT_LANG'', ''OPAQUE_CONTEXT'',
      ''build_url'', ''_safe_json'', ''is_pat_token'', ''_b64encode'', ''_b64decode'',
      ''opaque_check'', ''pat_opaque_start'', ''pat_opaque_finish'', ''auths'',
      ''cache_time'', ''api_login'']"

definition load_global :: "string \<Rightarrow> exn option" where
  "load_global n = (if n \<in> set module_globals then None else Some (NameError n))"

text \<open>
  The \<^verbatim>\<open>opaque\<close> package is imported inside the functions that use it; the import
  yields the library or raises. Its two functions are parameters.
\<close>

record opaque_lib =
  CreateCredentialRequest :: "string \<Rightarrow> exn + (bytes \<times> bytes)"
  RecoverCredentials :: "bytes \<Rightarrow> bytes \<Rightarrow> bytes \<Rightarrow> exn + (bytes \<times> bytes \<times> bytes)"

type_synonym 'a session_outcome = "(exn + 'a) \<times> session \<times> request list"

text \<open>\<^verbatim>\<open>session.cookies.set(name, value)\<close>: the value \<^verbatim>\<open>None\<close> removes the cookie.\<close>

definition cookies_set :: "session \<Rightarrow> string \<Rightarrow> pyval \<Rightarrow> session" where
  "cookies_set s name v =
     (if v = PNone then s\<lparr>cookies := AList.delete name (cookies s)\<rparr>
      else s\<lparr>cookies := AList.update name v (cookies s)\<rparr>)"

text \<open>\<^verbatim>\<open>opaque_check(session, username, lang)\<close>: a dictionary, or \<^verbatim>\<open>None\<close> on any exception.\<close>

definition opaque_check :: "config \<Rightarrow> http \<Rightarrow> session \<Rightarrow> string \<Rightarrow> string \<Rightarrow> pyval \<times> session \<times> request list" where
  "opaque_check cfg http s user lng =
     (case build_url cfg True lng (Some ''opaque_check'') [] of
        Inl e \<Rightarrow> (PNone, s, [])
      | Inr built \<Rightarrow>
      let req = post_args built (PDict [(''username'', PStr user)]);
          (out, s') = http s req
      in case out of
           Inl e \<Rightarrow> (PNone, s', [req])
         | Inr resp \<Rightarrow>
             (case safe_json resp of
                Inl e \<Rightarrow> (PNone, s', [req])
              | Inr parsed \<Rightarrow>
                  (let result = py_or parsed (PDict []) in
                   case py_get result ''opaque_enabled'' (PBool False) of
                     Inl e \<Rightarrow> (PNone, s', [req])
                   | Inr oe \<Rightarrow>
                   case py_get result ''srp_enabled'' (PBool False) of
                     Inl e \<Rightarrow> (PNone, s', [req])
                   | Inr se \<Rightarrow>
                   case py_get result ''migration_available'' (PBool False) of
                     Inl e \<Rightarrow> (PNone, s', [req])
                   | Inr ma \<Rightarrow>
                       (PDict [(''opaque_enabled'', oe), (''srp_enabled'', se),
                               (''migration_available'', ma)], s', [req]))))"

text \<open>
  \<^verbatim>\<open>raise HTTPError(...)\<close>: the name is looked up first; were it bound, an exception of
  that class would be raised.
\<close>

definition raise_HTTPError :: "string \<Rightarrow> exn" where
  "raise_HTTPError msg =
     (case load_global ''HTTPError'' of Some e \<Rightarrow> e | None \<Rightarrow> PyException ''HTTPError'' msg)"

text \<open>\<^verbatim>\<open>pat_opaque_start(session, username, token, lang)\<close>.\<close>

definition pat_opaque_start :: "config \<Rightarrow> (exn + opaque_lib) \<Rightarrow> http \<Rightarrow> session \<Rightarrow> string \<Rightarrow> string \<Rightarrow> string \<Rightarrow> (bytes \<times> pyval \<times> pyval) session_outcome" where
  "pat_opaque_start cfg import_opaque http s user token lng =
     (case import_opaque of
        Inl e \<Rightarrow> (Inl e, s, [])
      | Inr lib \<Rightarrow>
     (case CreateCredentialRequest lib token of
        Inl e \<Rightarrow> (Inl e, s, [])
      | Inr (start_pub, client_sec) \<Rightarrow>
     (let start_login_request = b64encode start_pub;
          payload = PDict
            [(''username'', PStr user),
             (''token_prefix'',
                PStr (if length token > 12 then take 12 token @ ''...'' else token)),
             (''startLoginRequest'', PStr start_login_request)]
      in case build_url cfg True lng (Some ''pat_opaque_auth_init'') [] of
           Inl e \<Rightarrow> (Inl e, s, [])
         | Inr built \<Rightarrow>
      let req = post_args built payload;
          (out, s1) = http s req
      in case out of
           Inl e \<Rightarrow> (Inl e, s1, [req])
         | Inr resp \<Rightarrow>
        (case response_json resp of
           Inl e \<Rightarrow> (Inl e, s1, [req])
         | Inr result \<Rightarrow>
        (case py_get result ''success'' PNone of
           Inl e \<Rightarrow> (Inl e, s1, [req])
         | Inr success \<Rightarrow>
             if \<not> truthy success
             then (Inl (raise_HTTPError ''400 Client Error: OPAQUE start failed''), s1, [req])
             else
              (case py_index result ''session_id'' of
                 Inl e \<Rightarrow> (Inl e, s1, [req])
               | Inr session_id \<Rightarrow>
                   (let s2 = cookies_set s1 ''session_id'' session_id in
                    case py_index result ''loginResponse'' of
                      Inl e \<Rightarrow> (Inl e, s2, [req])
                    | Inr login_response \<Rightarrow>
                        (Inr (client_sec, login_response, session_id), s2, [req]))))))))"

text \<open>
  \<^verbatim>\<open>pat_opaque_finish(session, client_sec, login_response, session_id, lang)\<close>. The
  handler of \<^verbatim>\<open>ValueError\<close> logs and raises again. The finish request carries the
  \<^verbatim>\<open>bytes\<close> that \<^verbatim>\<open>urlsafe_b64encode\<close> returns.
\<close>

definition concat_pad :: "pyval \<Rightarrow> exn + string" where
  "concat_pad login_response =
     (case login_response of
        PStr t \<Rightarrow> Inr (t @ ''==='')
      | PList xs \<Rightarrow> Inl (TypeError (''can only concatenate list (not '' @ [CHR 0x22] @ ''str''
                                      @ [CHR 0x22] @ '') to list''))
      | PBytes b \<Rightarrow> Inl (TypeError (''can'' @ [CHR 0x27] @ ''t concat str to bytes''))
      | _ \<Rightarrow> Inl (TypeError (''unsupported operand type(s) for +: ''
                              @ quoted (type_name login_response) @ '' and '' @ quoted ''str'')))"

definition pat_opaque_finish :: "config \<Rightarrow> (exn + opaque_lib) \<Rightarrow> http \<Rightarrow> session \<Rightarrow> bytes \<Rightarrow> pyval \<Rightarrow> pyval \<Rightarrow> string \<Rightarrow> bool session_outcome" where
  "pat_opaque_finish cfg import_opaque http s client_sec login_response session_id lng =
     (case import_opaque of
        Inl e \<Rightarrow> (Inl e, s, [])
      | Inr lib \<Rightarrow>
     (case concat_pad login_response of
        Inl e \<Rightarrow> (Inl e, s, [])
      | Inr padded \<Rightarrow>
     (case base64_urlsafe_b64decode padded of
        Inl e \<Rightarrow> (Inl e, s, [])
      | Inr login_response_bytes \<Rightarrow>
     (case RecoverCredentials lib login_response_bytes client_sec OPAQUE_CONTEXT of
        Inl e \<Rightarrow> (Inl e, s, [])
      | Inr (sk, auth_u, export_key) \<Rightarrow>
     (let finish_request = PBytes (map of_char (base64_urlsafe_b64encode auth_u));
          payload = PDict [(''session_id'', session_id), (''finishLoginRequest'', finish_request)]
      in case build_url cfg True lng (Some ''pat_opaque_auth_finish'') [] of
           Inl e \<Rightarrow> (Inl e, s, [])
         | Inr built \<Rightarrow>
      let req = post_args built payload;
          (out, s1) = http s req
      in case out of
           Inl e \<Rightarrow> (Inl e, s1, [req])
         | Inr resp \<Rightarrow>
        (case response_json resp of
           Inl e \<Rightarrow> (Inl e, s1, [req])
         | Inr result \<Rightarrow>
        (case py_index result ''data'' of
           Inl e \<Rightarrow> (Inl e, s1, [req])
         | Inr data \<Rightarrow>
        (case py_get data ''session_id'' PNone of
           Inl e \<Rightarrow> (Inl e, s1, [req])
         | Inr sid_data \<Rightarrow>
        (case (if truthy sid_data then Inr sid_data else py_get result ''session_id'' PNone) of
           Inl e \<Rightarrow> (Inl e, s1, [req])
         | Inr sid \<Rightarrow>
        (let final_session_id = py_or sid session_id;
             s2 = (if truthy final_session_id
                   then cookies_set s1 ''session_id'' final_session_id else s1)
         in case py_get data ''pat'' PNone of
              Inl e \<Rightarrow> (Inl e, s2, [req])
            | Inr pat_token \<Rightarrow>
                (Inr True,
                 (if truthy pat_token then cookies_set s2 ''pat'' pat_token else s2),
                 [req])))))))))))"

text \<open>
  \<^verbatim>\<open>api_login(username, password)\<close>. An exception inside the \<^verbatim>\<open>try\<close> reaches the clause
  \<^verbatim>\<open>except HTTPError\<close>, which evaluates the name \<^verbatim>\<open>HTTPError\<close> before it can match; both
  handlers raise the exception again. The fallback calls the global \<^verbatim>\<open>legacy_login\<close>;
  the function it would be bound to is the parameter \<open>legacy_login\<close>. A password that
  passes \<^verbatim>\<open>is_pat_token\<close> is a string, so the branch of \<open>api_login\<close> for a token of
  another type is never taken (lemma \<open>pat_token_is_str\<close>).
\<close>

type_synonym legacy = "session \<Rightarrow> string \<Rightarrow> pyval \<Rightarrow> pyval session_outcome"

type_synonym login_result = "(exn + bool \<times> session option) \<times> request list"

definition api_login_except :: "exn \<Rightarrow> exn" where
  "api_login_except e = (case load_global ''HTTPError'' of Some ne \<Rightarrow> ne | None \<Rightarrow> e)"

definition api_login_fallback :: "legacy \<Rightarrow> session \<Rightarrow> string \<Rightarrow> pyval \<Rightarrow> request list \<Rightarrow> login_result" where
  "api_login_fallback legacy_login s user password reqs =
     (case load_global ''legacy_login'' of
        Some e \<Rightarrow> (Inl e, reqs)
      | None \<Rightarrow>
          (case legacy_login s user password of
             (Inl e, s', rs) \<Rightarrow> (Inl e, reqs @ rs)
           | (Inr ok, s', rs) \<Rightarrow>
               if truthy ok then (Inr (True, Some s'), reqs @ rs)
               else (Inr (False, None), reqs @ rs)))"

definition api_login_opaque :: "config \<Rightarrow> (exn + opaque_lib) \<Rightarrow> http \<Rightarrow> session \<Rightarrow> string \<Rightarrow> string \<Rightarrow> request list \<Rightarrow> login_result" where
  "api_login_opaque cfg import_opaque http s user token reqs =
     (case pat_opaque_start cfg import_opaque http s user token (DEFAULT_LANG cfg) of
        (Inl e, s1, rs1) \<Rightarrow> (Inl (api_login_except e), reqs @ rs1)
      | (Inr (client_sec, login_response, session_id), s1, rs1) \<Rightarrow>
          (case pat_opaque_finish cfg import_opaque http s1 client_sec login_response
                  session_id (DEFAULT_LANG cfg) of
             (Inl e, s2, rs2) \<Rightarrow> (Inl (api_login_except e), reqs @ rs1 @ rs2)
           | (Inr ok, s2, rs2) \<Rightarrow> (Inr (True, Some s2), reqs @ rs1 @ rs2)))"

definition api_login :: "config \<Rightarrow> (exn + opaque_lib) \<Rightarrow> legacy \<Rightarrow> http \<Rightarrow> string \<Rightarrow> pyval \<Rightarrow> login_result" where
  "api_login cfg import_opaque legacy_login http user password =
     (let s = requests_Session in
      if opaque_is_pat_token password
      then
       (case opaque_check cfg http s user (DEFAULT_LANG cfg) of
          (capability, s1, rs) \<Rightarrow>
            (case (if capability = PNone then Inr (PBool True)
                   else py_get capability ''opaque_enabled'' (PBool False)) of
               Inl e \<Rightarrow> (Inl e, rs)
             | Inr enabled \<Rightarrow>
                 if truthy enabled
                 then
                  (case password of
                     PStr token \<Rightarrow> api_login_opaque cfg import_opaque http s1 user token rs
                   | _ \<Rightarrow> (Inl (TypeError ''token is not a string''), rs))
                 else api_login_fallback legacy_login s1 user password rs))
      else api_login_fallback legacy_login s user password [])"

section \<open>Sequences of client operations\<close>

text \<open>
  The public methods of \<^verbatim>\<open>TrashMailClient\<close> as operations. A caller may go on using the
  object after a method raised, so a step yields the object as the method left it,
  whatever it returned. Each step meets the network as it is at that moment.
\<close>

datatype operation =
    CheckAuthMethods string
  | Login string string
  | LoginWithPat string string
  | ApiCall string pydict
  | GetDeas
  | CreateDea string pydict
  | Logout

fun step :: "http \<Rightarrow> operation \<Rightarrow> client \<Rightarrow> client" where
  "step http (CheckAuthMethods u) c = fst (snd (check_auth_methods http c u))"
| "step http (Login u p) c = fst (snd (login http c u p))"
| "step http (LoginWithPat u t) c = fst (snd (login_with_pat http c u t))"
| "step http (ApiCall cmd kwargs) c = fst (snd (api_call http c cmd kwargs))"
| "step http GetDeas c = fst (snd (get_deas http c))"
| "step http (CreateDea e opts) c = fst (snd (create_dea http c e opts))"
| "step http Logout c = fst (snd (logout http c))"

fun run :: "(http \<times> operation) list \<Rightarrow> client \<Rightarrow> client" where
  "run [] c = c"
| "run ((http, op) # rest) c = run rest (step http op c)"

fun is_login :: "operation \<Rightarrow> bool" where
  "is_login (Login u p) = True"
| "is_login (LoginWithPat u t) = True"
| "is_login other = False"

section \<open>Example environments\<close>

text \<open>
  Two networks for concrete runs: one where every post raises a connection error, and
  one where every post returns a response whose body parses to the given value.
\<close>

definition offline :: http where
  "offline s r =
     (Inl (PyException ''requests.exceptions.ConnectionError'' ''connection refused''), s)"

definition answers :: "pyval \<Rightarrow> http" where
  "answers v s r = (Inr \<lparr>json_result = Parsed v\<rparr>, s)"

text \<open>The relation between the two private attributes that every method keeps.\<close>

definition username_inv :: "client \<Rightarrow> bool" where
  "username_inv c = (p_authenticated c \<or> p_username c = None)"

section \<open>Dictionaries\<close>

lemma map_add_upd_left: "(m(k \<mapsto> v)) ++ n = m ++ (map_of [(k, v)] ++ n)"
  by (rule ext) (simp add: map_add_def split: option.splits)

lemma map_of_dict_update_rev: "map_of (dict_update d e) = map_of d ++ map_of (rev e)"
proof (induction e arbitrary: d)
  case Nil
  then show ?case by (simp add: dict_update_def)
next
  case (Cons kv e)
  obtain k v where kv: "kv = (k, v)" by (cases kv)
  have "dict_update d (kv # e) = dict_update (AList.update k v d) e"
    by (simp add: dict_update_def kv)
  then have "map_of (dict_update d (kv # e)) = (map_of d)(k \<mapsto> v) ++ map_of (rev e)"
    using Cons.IH [of "AList.update k v d"] by (simp only: update_conv')
  also have "\<dots> = map_of d ++ (map_of [(k, v)] ++ map_of (rev e))"
    by (rule map_add_upd_left)
  also have "map_of [(k, v)] ++ map_of (rev e) = map_of (rev (kv # e))"
    by (simp only: kv rev.simps map_of_append)
  finally show ?case .
qed

lemma map_of_rev_distinct: "distinct (map fst xs) \<Longrightarrow> map_of (rev xs) = map_of xs"
proof (induction xs)
  case Nil
  then show ?case by simp
next
  case (Cons kv xs)
  obtain k v where kv: "kv = (k, v)" by (cases kv)
  from Cons.prems have notin: "map_of xs k = None" and d: "distinct (map fst xs)"
    by (auto simp: kv map_of_eq_None_iff)
  show ?case
    using Cons.IH [OF d] notin
    by (auto simp: kv map_of_append map_add_def fun_eq_iff split: option.splits)
qed

lemma map_of_dict_update:
  "distinct (map fst e) \<Longrightarrow> map_of (dict_update d e) = map_of d ++ map_of e"
  by (simp add: map_of_dict_update_rev map_of_rev_distinct)

lemma map_of_rev_None: "(map_of (rev e) k = None) = (map_of e k = None)"
  by (simp add: map_of_eq_None_iff)

lemma has_key_dict_update: "has_key (dict_update d e) k = (has_key d k \<or> has_key e k)"
proof -
  have "(map_of (rev e) k = None) = (map_of e k = None)"
    by (rule map_of_rev_None)
  then show ?thesis
    by (cases "map_of (rev e) k"; cases "map_of e k")
       (simp_all add: has_key_def map_of_dict_update_rev map_add_def)
qed

lemma has_key_iff: "has_key d k = (k \<in> fst ` set d)"
  by (simp add: has_key_def map_of_eq_None_iff)

lemma keyword_clash_None:
  "(keyword_clash fname names kwargs = None) = (list_all (\<lambda>k. \<not> has_key kwargs k) names)"
proof -
  have "(keyword_clash fname names kwargs = None)
      = (find (\<lambda>k. k \<in> set names) (map fst kwargs) = None)"
    by (simp add: keyword_clash_def split: option.splits)
  also have "\<dots> = (\<not> (\<exists>k. k \<in> set (map fst kwargs) \<and> k \<in> set names))"
    by (simp only: find_None_iff)
  also have "\<dots> = list_all (\<lambda>k. \<not> has_key kwargs k) names"
    by (auto simp: has_key_iff list_all_iff)
  finally show ?thesis .
qed

lemma keyword_clash_Some:
  "keyword_clash fname names kwargs \<noteq> None \<Longrightarrow>
     \<exists>msg. keyword_clash fname names kwargs = Some (TypeError msg)"
  by (auto simp: keyword_clash_def split: option.splits)

lemma build_url_no_keywords:
  "TrashMailClient_build_url c cmd True []
     = Inr \<lparr>url = base_url c @ ''/'',
            params = (if cmd \<noteq> []
                      then [(''lang'', PStr (lang c)), (''api'', PInt 1), (''cmd'', PStr cmd)]
                      else [(''lang'', PStr (lang c)), (''api'', PInt 1)])\<rparr>"
  by (simp add: TrashMailClient_build_url_def keyword_clash_def dict_update_def)

lemma has_key_create_dea_kwargs:
  "has_key (dict_update [(''realemail'', PStr e)] options) ''cmd''
     = (map_of options ''cmd'' \<noteq> None)"
  by (simp add: has_key_dict_update) (simp add: has_key_def)

lemma has_key_realemail:
  "has_key (dict_update [(''realemail'', PStr e)] options) ''realemail''"
  by (simp add: has_key_dict_update) (simp add: has_key_def)

section \<open>Tokens\<close>

lemma pat_token_is_str: "opaque_is_pat_token password \<Longrightarrow> \<exists>s. password = PStr s"
  by (cases password) (simp_all add: opaque_is_pat_token_def)

section \<open>What each method does to the two private attributes\<close>

lemma api_call_keeps_auth:
  "p_authenticated (fst (snd (api_call http c cmd kw))) = p_authenticated c
   \<and> p_username (fst (snd (api_call http c cmd kw))) = p_username c"
  by (simp add: api_call_def Let_def split: prod.splits sum.splits)

lemma check_auth_methods_keeps_auth:
  "p_authenticated (fst (snd (check_auth_methods http c u))) = p_authenticated c
   \<and> p_username (fst (snd (check_auth_methods http c u))) = p_username c"
  by (simp add: check_auth_methods_def Let_def split: prod.splits sum.splits)

lemma get_deas_state:
  "fst (snd (get_deas http c)) = fst (snd (api_call http c ''read_dea'' []))"
  by (simp add: get_deas_def split: prod.splits sum.splits)

lemma create_dea_state:
  "fst (snd (create_dea http c e opts)) = c
   \<or> fst (snd (create_dea http c e opts))
      = fst (snd (api_call http c ''save_dea'' (dict_update [(''realemail'', PStr e)] opts)))"
  by (simp add: create_dea_def Let_def split: prod.splits sum.splits)

lemma get_deas_keeps_auth:
  "p_authenticated (fst (snd (get_deas http c))) = p_authenticated c
   \<and> p_username (fst (snd (get_deas http c))) = p_username c"
  by (simp only: get_deas_state api_call_keeps_auth)

lemma create_dea_keeps_auth:
  "p_authenticated (fst (snd (create_dea http c e opts))) = p_authenticated c
   \<and> p_username (fst (snd (create_dea http c e opts))) = p_username c"
  using create_dea_state [of http c e opts]
    api_call_keeps_auth [of http c "''save_dea''" "dict_update [(''realemail'', PStr e)] opts"]
  by auto

lemma login_try_auth:
  "(p_authenticated (fst (snd (login_try http c u p))) = p_authenticated c
      \<and> p_username (fst (snd (login_try http c u p))) = p_username c)
   \<or> (p_authenticated (fst (snd (login_try http c u p)))
      \<and> p_username (fst (snd (login_try http c u p))) = Some u)"
  by (simp add: login_try_def Let_def split: prod.splits sum.splits)

lemma login_state: "fst (snd (login http c u p)) = fst (snd (login_try http c u p))"
  by (simp add: login_def split: prod.splits sum.splits)

lemma logout_state:
  "\<not> p_authenticated (fst (snd (logout http c))) \<and> p_username (fst (snd (logout http c))) = None"
  by (simp add: logout_def split: prod.splits)

lemma login_except_api_error: "login_except e \<noteq> PyException cls msg"
  by (cases e) simp_all

lemma login_raises_api_error: "fst (login http c u p) \<noteq> Inl (PyException cls msg)"
  by (simp add: login_def login_except_api_error split: prod.splits sum.splits)

lemma step_inv:
  assumes "username_inv c"
  shows "username_inv (step http op c)"
proof (cases op)
  case (Login u p)
  then show ?thesis using assms login_try_auth [of http c u p]
    by (auto simp: username_inv_def login_state)
next
  case (LoginWithPat u t)
  then show ?thesis using assms login_try_auth [of http c u t]
    by (auto simp: username_inv_def login_state login_with_pat_def)
qed (use assms in \<open>auto simp: username_inv_def api_call_keeps_auth
       check_auth_methods_keeps_auth get_deas_keeps_auth create_dea_keeps_auth logout_state\<close>)

lemma run_inv: "username_inv c \<Longrightarrow> username_inv (run ops c)"
  by (induction ops arbitrary: c) (auto simp: step_inv)

lemma step_sets_True:
  assumes "\<not> p_authenticated c" and "p_authenticated (step http op c)"
  shows "is_login op"
  using assms
  by (cases op)
     (simp_all add: api_call_keeps_auth check_auth_methods_keeps_auth
       get_deas_keeps_auth create_dea_keeps_auth logout_state)

lemma step_sets_False:
  assumes "p_authenticated c" and "\<not> p_authenticated (step http op c)"
  shows "op = Logout"
proof (cases op)
  case (Login u p)
  then show ?thesis using assms login_try_auth [of http c u p]
    by (auto simp: login_state)
next
  case (LoginWithPat u t)
  then show ?thesis using assms login_try_auth [of http c u t]
    by (auto simp: login_state login_with_pat_def split: if_splits)
qed (use assms in \<open>simp_all add: api_call_keeps_auth check_auth_methods_keeps_auth
       get_deas_keeps_auth create_dea_keeps_auth\<close>)

section \<open>The claims\<close>

subsection \<open>C1: the fallback of \<^verbatim>\<open>api_login\<close>\<close>

text \<open>
  C1 says that for every username and every password that is not a PAT token,
  \<^verbatim>\<open>api_login\<close> skips the OPAQUE path and runs the classic login as plain HTTP plumbing,
  raising no local error before the fallback request. The OPAQUE path is skipped indeed,
  but the fallback is the call \<^verbatim>\<open>legacy_login(session, username, password)\<close>, and the
  module binds no such name: the call raises \<^verbatim>\<open>NameError\<close> and no request is posted,
  whatever the network, the \<^verbatim>\<open>opaque\<close> package and the arguments are.
\<close>

theorem api_login_fallback_raises_NameError:
  "\<not> opaque_is_pat_token password \<Longrightarrow>
     api_login cfg import_opaque legacy_login http user password
       = (Inl (NameError ''legacy_login''), [])"
  by (simp add: api_login_def api_login_fallback_def load_global_def module_globals_def)

text \<open>At the username \<^verbatim>\<open>user@example.com\<close> and the password \<^verbatim>\<open>secret\<close>.\<close>

theorem api_login_fallback_raises_NameError_witness:
  "\<not> opaque_is_pat_token (PStr ''secret'')
   \<and> api_login \<lparr>API_BASE_URL = ''https://trashmail.com'', DEFAULT_LANG = ''en''\<rparr>
         (Inl (PyException ''ModuleNotFoundError'' ''No module named opaque''))
         (\<lambda>s u p. (Inr (PBool True), s, [])) (answers (PDict [(''success'', PBool True)]))
         ''user@example.com'' (PStr ''secret'')
       = (Inl (PyException ''NameError'' ''name 'legacy_login' is not defined''), [])"
  using api_login_fallback_raises_NameError [of "PStr ''secret''"]
  by (simp add: opaque_is_pat_token_def startswith_def NameError_def quoted_def)

subsection \<open>C2: calls on a client that is not authenticated\<close>

text \<open>
  C2, as amended: on a client that is not authenticated, \<^verbatim>\<open>get_deas\<close> and \<^verbatim>\<open>create_dea\<close>
  (called with options that have no key \<^verbatim>\<open>cmd\<close>) raise the \<^verbatim>\<open>TrashMailAPIError\<close> of
  \<^verbatim>\<open>api_call\<close> and post nothing; \<^verbatim>\<open>logout\<close> does not raise: it drops that error, posts
  nothing and returns \<^verbatim>\<open>True\<close>.
\<close>

theorem unauthenticated_calls:
  assumes "\<not> is_authenticated c"
  shows "get_deas http c
           = (Inl (TrashMailAPIError (PStr ''Not authenticated. Call login() first.'') PNone None),
              c, [])
       \<and> (map_of options ''cmd'' = None \<longrightarrow>
            create_dea http c e options
              = (Inl (TrashMailAPIError (PStr ''Not authenticated. Call login() first.'')
                       PNone None), c, []))
       \<and> fst (logout http c) = Inr True
       \<and> snd (snd (logout http c)) = []"
  using assms
  by (simp add: is_authenticated_def get_deas_def create_dea_def logout_def api_call_def
        has_key_create_dea_kwargs Let_def)

text \<open>On a client just constructed, with the network down.\<close>

theorem unauthenticated_calls_witness:
  "\<not> is_authenticated (TrashMailClient ''https://trashmail.com'' ''en'')
   \<and> fst (get_deas offline (TrashMailClient ''https://trashmail.com'' ''en''))
       = Inl (TrashMailAPIError (PStr ''Not authenticated. Call login() first.'') PNone None)
   \<and> map_of [(''expire'', PInt 7)] ''cmd'' = None
   \<and> fst (create_dea offline (TrashMailClient ''https://trashmail.com'' ''en'') ''me@example.com''
            [(''expire'', PInt 7)])
       = Inl (TrashMailAPIError (PStr ''Not authenticated. Call login() first.'') PNone None)
   \<and> fst (logout offline (TrashMailClient ''https://trashmail.com'' ''en'')) = Inr True"
  using unauthenticated_calls [of "TrashMailClient ''https://trashmail.com'' ''en''" offline
          "[(''expire'', PInt 7)]" "''me@example.com''"]
  by (simp add: is_authenticated_def TrashMailClient_def)

text \<open>
  C2 as it was stated fails: on a client just constructed \<^verbatim>\<open>logout\<close> returns \<^verbatim>\<open>True\<close>,
  and \<^verbatim>\<open>create_dea\<close> with an option named \<^verbatim>\<open>cmd\<close> raises \<^verbatim>\<open>TypeError\<close>.
\<close>

theorem unauthenticated_logout_counterexample:
  "\<not> is_authenticated (TrashMailClient ''https://trashmail.com'' ''en'')
   \<and> fst (logout offline (TrashMailClient ''https://trashmail.com'' ''en'')) = Inr True
   \<and> fst (create_dea offline (TrashMailClient ''https://trashmail.com'' ''en'') ''me@example.com''
            [(''cmd'', PStr ''read_dea'')])
       = Inl (TypeError (''TrashMailClient.api_call() got multiple values for argument ''
                         @ quoted ''cmd''))"
  by (simp add: is_authenticated_def TrashMailClient_def logout_def api_call_def create_dea_def
        dict_update_def has_key_def)

subsection \<open>C3: the commands behind the methods\<close>

text \<open>
  C3, as amended: \<^verbatim>\<open>login\<close> posts one request with \<^verbatim>\<open>cmd=login\<close> and the username and
  password in the JSON body. On an authenticated client \<^verbatim>\<open>get_deas\<close> posts \<^verbatim>\<open>cmd=read_dea\<close>,
  \<^verbatim>\<open>logout\<close> posts \<^verbatim>\<open>cmd=logout\<close>, and \<^verbatim>\<open>create_dea\<close> (its options having no key
  \<^verbatim>\<open>cmd\<close>) posts \<^verbatim>\<open>cmd=save_dea\<close> with a JSON body that has the key \<^verbatim>\<open>realemail\<close>. When
  the response is a non-empty dictionary whose \<^verbatim>\<open>success\<close> is absent or truthy,
  \<^verbatim>\<open>get_deas\<close> returns its \<^verbatim>\<open>data\<close>, or the empty list when there is none, and
  \<^verbatim>\<open>create_dea\<close> returns its \<^verbatim>\<open>data\<close>, or the empty dictionary.
\<close>

theorem commands_of_methods:
  "snd (snd (login http c u p))
     = [\<lparr>req_url = base_url c @ ''/'',
         req_params = [(''lang'', PStr (lang c)), (''api'', PInt 1), (''cmd'', PStr ''login'')],
         req_json = PDict [(''fe-login-user'', PStr u), (''fe-login-pass'', PStr p)]\<rparr>]
   \<and> (is_authenticated c \<longrightarrow>
        snd (snd (get_deas http c))
          = [\<lparr>req_url = base_url c @ ''/'',
              req_params = [(''lang'', PStr (lang c)), (''api'', PInt 1), (''cmd'', PStr ''read_dea'')],
              req_json = PDict []\<rparr>]
        \<and> snd (snd (logout http c))
          = [\<lparr>req_url = base_url c @ ''/'',
              req_params = [(''lang'', PStr (lang c)), (''api'', PInt 1), (''cmd'', PStr ''logout'')],
              req_json = PDict []\<rparr>])
   \<and> (is_authenticated c \<and> map_of options ''cmd'' = None \<longrightarrow>
        snd (snd (create_dea http c e options))
          = [\<lparr>req_url = base_url c @ ''/'',
              req_params = [(''lang'', PStr (lang c)), (''api'', PInt 1), (''cmd'', PStr ''save_dea'')],
              req_json = PDict (dict_update [(''realemail'', PStr e)] options)\<rparr>]
        \<and> has_key (dict_update [(''realemail'', PStr e)] options) ''realemail'')
   \<and> (is_authenticated c \<and> kvs \<noteq> []
        \<and> (case map_of kvs ''success'' of None \<Rightarrow> True | Some ok \<Rightarrow> truthy ok)
        \<and> fst (http (session c)
              \<lparr>req_url = base_url c @ ''/'',
               req_params = [(''lang'', PStr (lang c)), (''api'', PInt 1), (''cmd'', PStr ''read_dea'')],
               req_json = PDict []\<rparr>) = Inr \<lparr>json_result = Parsed (PDict kvs)\<rparr> \<longrightarrow>
        fst (get_deas http c) = Inr (case map_of kvs ''data'' of Some d \<Rightarrow> d | None \<Rightarrow> PList []))
   \<and> (is_authenticated c \<and> map_of options ''cmd'' = None \<and> kvs \<noteq> []
        \<and> (case map_of kvs ''success'' of None \<Rightarrow> True | Some ok \<Rightarrow> truthy ok)
        \<and> fst (http (session c)
              \<lparr>req_url = base_url c @ ''/'',
               req_params = [(''lang'', PStr (lang c)), (''api'', PInt 1), (''cmd'', PStr ''save_dea'')],
               req_json = PDict (dict_update [(''realemail'', PStr e)] options)\<rparr>)
            = Inr \<lparr>json_result = Parsed (PDict kvs)\<rparr> \<longrightarrow>
        fst (create_dea http c e options)
          = Inr (case map_of kvs ''data'' of Some d \<Rightarrow> d | None \<Rightarrow> PDict []))"
proof -
  have url: "TrashMailClient_build_url c cmd True []
      = Inr \<lparr>url = base_url c @ ''/'',
         params = [(''lang'', PStr (lang c)), (''api'', PInt 1), (''cmd'', PStr cmd)]\<rparr>"
    if "cmd \<noteq> []" for cmd
    using that by (simp add: build_url_no_keywords)
  have a: "snd (snd (login http c u p))
     = [\<lparr>req_url = base_url c @ ''/'',
         req_params = [(''lang'', PStr (lang c)), (''api'', PInt 1), (''cmd'', PStr ''login'')],
         req_json = PDict [(''fe-login-user'', PStr u), (''fe-login-pass'', PStr p)]\<rparr>]"
    by (simp add: login_def login_try_def url post_args_def Let_def split: prod.splits sum.splits)
  have sent: "snd (snd (api_call http c cmd kw))
      = [\<lparr>req_url = base_url c @ ''/'',
          req_params = [(''lang'', PStr (lang c)), (''api'', PInt 1), (''cmd'', PStr cmd)],
          req_json = PDict kw\<rparr>]"
    if "is_authenticated c" "cmd \<noteq> []" for cmd kw
    using that
    by (simp add: api_call_def is_authenticated_def url post_args_def Let_def
          split: prod.splits sum.splits)
  have ret: "fst (api_call http c cmd kw) = Inr (PDict kvs)"
    if h1: "is_authenticated c" and h2: "cmd \<noteq> []" and h3: "kvs \<noteq> []"
       and h4: "case map_of kvs ''success'' of None \<Rightarrow> True | Some ok \<Rightarrow> truthy ok"
       and h5: "fst (http (session c)
              \<lparr>req_url = base_url c @ ''/'',
               req_params = [(''lang'', PStr (lang c)), (''api'', PInt 1), (''cmd'', PStr cmd)],
               req_json = PDict kw\<rparr>) = Inr \<lparr>json_result = Parsed (PDict kvs)\<rparr>"
    for cmd kw
  proof -
    obtain s' where h: "http (session c)
              \<lparr>req_url = base_url c @ ''/'',
               req_params = [(''lang'', PStr (lang c)), (''api'', PInt 1), (''cmd'', PStr cmd)],
               req_json = PDict kw\<rparr>
         = (Inr \<lparr>json_result = Parsed (PDict kvs)\<rparr>, s')"
      using h5 by (metis prod.collapse)
    show ?thesis
      using h1 h2 h3 h4 h
      by (simp add: api_call_def is_authenticated_def url post_args_def Let_def
            TrashMailClient_safe_json_def response_json_def py_get_def
            split: option.splits)
  qed
  have b: "is_authenticated c \<longrightarrow>
        snd (snd (get_deas http c))
          = [\<lparr>req_url = base_url c @ ''/'',
              req_params = [(''lang'', PStr (lang c)), (''api'', PInt 1), (''cmd'', PStr ''read_dea'')],
              req_json = PDict []\<rparr>]
        \<and> snd (snd (logout http c))
          = [\<lparr>req_url = base_url c @ ''/'',
              req_params = [(''lang'', PStr (lang c)), (''api'', PInt 1), (''cmd'', PStr ''logout'')],
              req_json = PDict []\<rparr>]"
    using sent [of "''read_dea''" "[]"] sent [of "''logout''" "[]"]
    by (auto simp: get_deas_def logout_def split: prod.splits sum.splits)
  have c: "is_authenticated c \<and> map_of options ''cmd'' = None \<longrightarrow>
        snd (snd (create_dea http c e options))
          = [\<lparr>req_url = base_url c @ ''/'',
              req_params = [(''lang'', PStr (lang c)), (''api'', PInt 1), (''cmd'', PStr ''save_dea'')],
              req_json = PDict (dict_update [(''realemail'', PStr e)] options)\<rparr>]
        \<and> has_key (dict_update [(''realemail'', PStr e)] options) ''realemail''"
    using sent [of "''save_dea''" "dict_update [(''realemail'', PStr e)] options"]
    by (auto simp: create_dea_def has_key_create_dea_kwargs has_key_realemail Let_def
          split: prod.splits sum.splits)
  have d: "is_authenticated c \<and> kvs \<noteq> []
        \<and> (case map_of kvs ''success'' of None \<Rightarrow> True | Some ok \<Rightarrow> truthy ok)
        \<and> fst (http (session c)
              \<lparr>req_url = base_url c @ ''/'',
               req_params = [(''lang'', PStr (lang c)), (''api'', PInt 1), (''cmd'', PStr ''read_dea'')],
               req_json = PDict []\<rparr>) = Inr \<lparr>json_result = Parsed (PDict kvs)\<rparr> \<longrightarrow>
        fst (get_deas http c) = Inr (case map_of kvs ''data'' of Some d \<Rightarrow> d | None \<Rightarrow> PList [])"
    using ret [of "''read_dea''" "[]"]
    by (auto simp: get_deas_def py_get_def split: prod.splits sum.splits)
  have e: "is_authenticated c \<and> map_of options ''cmd'' = None \<and> kvs \<noteq> []
        \<and> (case map_of kvs ''success'' of None \<Rightarrow> True | Some ok \<Rightarrow> truthy ok)
        \<and> fst (http (session c)
              \<lparr>req_url = base_url c @ ''/'',
               req_params = [(''lang'', PStr (lang c)), (''api'', PInt 1), (''cmd'', PStr ''save_dea'')],
               req_json = PDict (dict_update [(''realemail'', PStr e)] options)\<rparr>)
            = Inr \<lparr>json_result = Parsed (PDict kvs)\<rparr> \<longrightarrow>
        fst (create_dea http c e options)
          = Inr (case map_of kvs ''data'' of Some d \<Rightarrow> d | None \<Rightarrow> PDict [])"
    using ret [of "''save_dea''" "dict_update [(''realemail'', PStr e)] options"]
    by (auto simp: create_dea_def has_key_create_dea_kwargs py_get_def Let_def
          split: prod.splits sum.splits)
  from a b c d e show ?thesis by blast
qed

text \<open>On a logged-in client, against a server that answers with one alias.\<close>

theorem commands_of_methods_witness:
  "is_authenticated ((TrashMailClient ''https://trashmail.com'' ''en'')
         \<lparr>p_authenticated := True, p_username := Some ''user@example.com''\<rparr>)
   \<and> map_of [(''expire'', PInt 7)] ''cmd'' = None
   \<and> snd (snd (get_deas (answers (PDict [(''data'', PList [PStr ''x@trashmail.com''])]))
         ((TrashMailClient ''https://trashmail.com'' ''en'')
            \<lparr>p_authenticated := True, p_username := Some ''user@example.com''\<rparr>)))
       = [\<lparr>req_url = ''https://trashmail.com/'',
           req_params = [(''lang'', PStr ''en''), (''api'', PInt 1), (''cmd'', PStr ''read_dea'')],
           req_json = PDict []\<rparr>]
   \<and> fst (get_deas (answers (PDict [(''data'', PList [PStr ''x@trashmail.com''])]))
         ((TrashMailClient ''https://trashmail.com'' ''en'')
            \<lparr>p_authenticated := True, p_username := Some ''user@example.com''\<rparr>))
       = Inr (PList [PStr ''x@trashmail.com''])
   \<and> snd (snd (create_dea (answers (PDict [(''data'', PList [PStr ''x@trashmail.com''])]))
         ((TrashMailClient ''https://trashmail.com'' ''en'')
            \<lparr>p_authenticated := True, p_username := Some ''user@example.com''\<rparr>)
         ''me@example.com'' [(''expire'', PInt 7)]))
       = [\<lparr>req_url = ''https://trashmail.com/'',
           req_params = [(''lang'', PStr ''en''), (''api'', PInt 1), (''cmd'', PStr ''save_dea'')],
           req_json = PDict [(''realemail'', PStr ''me@example.com''), (''expire'', PInt 7)]\<rparr>]
   \<and> fst (create_dea (answers (PDict [(''data'', PList [PStr ''x@trashmail.com''])]))
         ((TrashMailClient ''https://trashmail.com'' ''en'')
            \<lparr>p_authenticated := True, p_username := Some ''user@example.com''\<rparr>)
         ''me@example.com'' [(''expire'', PInt 7)])
       = Inr (PList [PStr ''x@trashmail.com''])"
  using commands_of_methods
          [of "answers (PDict [(''data'', PList [PStr ''x@trashmail.com''])])"
              "(TrashMailClient ''https://trashmail.com'' ''en'')
                 \<lparr>p_authenticated := True, p_username := Some ''user@example.com''\<rparr>"
              "''user@example.com''" "''secret''" "[(''expire'', PInt 7)]" "''me@example.com''"
              "[(''data'', PList [PStr ''x@trashmail.com''])]"]
  by (simp add: is_authenticated_def TrashMailClient_def answers_def dict_update_def)

text \<open>
  C3 as it was stated fails outside those conditions. On a logged-in client whose server
  answers with the empty object, \<^verbatim>\<open>get_deas\<close> raises \<^verbatim>\<open>Invalid response from server\<close>
  where the empty list was promised; when the answer says \<^verbatim>\<open>success: false\<close> it raises
  instead of returning the \<^verbatim>\<open>data\<close>; \<^verbatim>\<open>create_dea\<close> with an option named \<^verbatim>\<open>cmd\<close> raises
  \<^verbatim>\<open>TypeError\<close> and posts nothing; and on a client just constructed \<^verbatim>\<open>get_deas\<close> and
  \<^verbatim>\<open>logout\<close> post nothing.
\<close>

theorem commands_of_methods_counterexample:
  "fst (get_deas (answers (PDict []))
         ((TrashMailClient ''https://trashmail.com'' ''en'')
            \<lparr>p_authenticated := True, p_username := Some ''user@example.com''\<rparr>))
     = Inl (TrashMailAPIError (PStr ''Invalid response from server'') PNone None)
   \<and> fst (get_deas (answers (PDict [(''success'', PBool False),
                                    (''data'', PList [PStr ''x@trashmail.com''])]))
         ((TrashMailClient ''https://trashmail.com'' ''en'')
            \<lparr>p_authenticated := True, p_username := Some ''user@example.com''\<rparr>))
     = Inl (TrashMailAPIError (PStr ''API call failed'') PNone
             (Some \<lparr>json_result = Parsed (PDict [(''success'', PBool False),
                                                  (''data'', PList [PStr ''x@trashmail.com''])])\<rparr>))
   \<and> create_dea (answers (PDict [(''data'', PDict [])]))
         ((TrashMailClient ''https://trashmail.com'' ''en'')
            \<lparr>p_authenticated := True, p_username := Some ''user@example.com''\<rparr>)
         ''me@example.com'' [(''cmd'', PStr ''read_dea'')]
     = (Inl (TypeError (''TrashMailClient.api_call() got multiple values for argument ''
                        @ quoted ''cmd'')),
        (TrashMailClient ''https://trashmail.com'' ''en'')
            \<lparr>p_authenticated := True, p_username := Some ''user@example.com''\<rparr>, [])
   \<and> snd (snd (get_deas (answers (PDict [(''data'', PList [])]))
         (TrashMailClient ''https://trashmail.com'' ''en''))) = []
   \<and> snd (snd (logout (answers (PDict [(''success'', PBool True)]))
         (TrashMailClient ''https://trashmail.com'' ''en''))) = []"
  by (simp add: get_deas_def create_dea_def logout_def api_call_def answers_def
        TrashMailClient_def build_url_no_keywords post_args_def Let_def
        TrashMailClient_safe_json_def response_json_def py_get_def dict_update_def has_key_def)

subsection \<open>C4: what counts as a PAT\<close>

text \<open>
  C4, as amended: in both modules \<^verbatim>\<open>is_pat_token(s)\<close> is true exactly when the string
  \<open>s\<close> starts with \<^verbatim>\<open>tmpat_\<close> and has more than six characters, and
  \<^verbatim>\<open>login_with_pat(username, token)\<close> raises \<^verbatim>\<open>ValueError\<close> exactly when the token does
  not start with \<^verbatim>\<open>tmpat_\<close>.
\<close>

theorem is_pat_token_amended:
  "is_pat_token (PStr s) = (startswith s ''tmpat_'' \<and> length s > 6)
   \<and> opaque_is_pat_token (PStr s) = (startswith s ''tmpat_'' \<and> length s > 6)
   \<and> ((\<exists>msg. fst (login_with_pat http c u t) = Inl (ValueError msg))
        = (\<not> startswith t ''tmpat_''))"
proof -
  have a: "is_pat_token (PStr s) = (startswith s ''tmpat_'' \<and> length s > 6)"
    by (auto simp: is_pat_token_def)
  have b: "opaque_is_pat_token (PStr s) = (startswith s ''tmpat_'' \<and> length s > 6)"
    by (auto simp: opaque_is_pat_token_def)
  have c: "(\<exists>msg. fst (login_with_pat http c u t) = Inl (ValueError msg))
      = (\<not> startswith t ''tmpat_'')"
  proof (cases "startswith t ''tmpat_''")
    case True
    then show ?thesis
      by (simp add: login_with_pat_def ValueError_def login_raises_api_error)
  next
    case False
    then have "fst (login_with_pat http c u t)
        = Inl (ValueError (''Invalid PAT format. Must start with '' @ quoted ''tmpat_''))"
      by (simp add: login_with_pat_def)
    with False show ?thesis by blast
  qed
  from a b c show ?thesis by blast
qed

text \<open>
  C4 as it was stated fails at the bare prefix: \<^verbatim>\<open>tmpat_\<close> starts with \<^verbatim>\<open>tmpat_\<close>, and
  \<^verbatim>\<open>is_pat_token\<close> is false on it in both modules.
\<close>

theorem is_pat_token_prefix_counterexample:
  "startswith ''tmpat_'' ''tmpat_''
   \<and> \<not> is_pat_token (PStr ''tmpat_'')
   \<and> \<not> opaque_is_pat_token (PStr ''tmpat_'')"
  by (simp add: is_pat_token_def opaque_is_pat_token_def startswith_def)

subsection \<open>C5: authenticated or not\<close>

text \<open>
  C5: after any sequence of operations on a client just constructed, a client that is not
  authenticated has no username. The attribute \<^verbatim>\<open>_authenticated\<close> only ever holds \<^verbatim>\<open>True\<close>
  or \<^verbatim>\<open>False\<close> (the type of \<open>p_authenticated\<close>). From any state, an operation that turns it
  on is a login (\<^verbatim>\<open>login\<close>, or \<^verbatim>\<open>login_with_pat\<close>, which hands a well-formed token to
  \<^verbatim>\<open>login\<close> and does nothing otherwise), and an operation that turns it off is \<^verbatim>\<open>logout\<close>.
\<close>

theorem authenticated_state_machine:
  "(\<not> is_authenticated (run ops (TrashMailClient b l)) \<longrightarrow>
      username (run ops (TrashMailClient b l)) = None)
   \<and> (\<not> is_authenticated c \<and> is_authenticated (step http op c) \<longrightarrow> is_login op)
   \<and> (is_authenticated c \<and> \<not> is_authenticated (step http op c) \<longrightarrow> op = Logout)
   \<and> step http (LoginWithPat u t) c
       = (if startswith t ''tmpat_'' then step http (Login u t) c else c)"
proof -
  have "username_inv (TrashMailClient b l)"
    by (simp add: username_inv_def TrashMailClient_def)
  then have "username_inv (run ops (TrashMailClient b l))"
    by (rule run_inv)
  then have a: "\<not> is_authenticated (run ops (TrashMailClient b l)) \<longrightarrow>
      username (run ops (TrashMailClient b l)) = None"
    by (auto simp: username_inv_def is_authenticated_def username_def)
  have d: "step http (LoginWithPat u t) c
       = (if startswith t ''tmpat_'' then step http (Login u t) c else c)"
    by (simp add: login_with_pat_def)
  from a d show ?thesis
    using step_sets_True [of c http op] step_sets_False [of c http op]
    by (auto simp: is_authenticated_def)
qed

text \<open>
  A login that succeeds, a call while the network is down, and a logout; then the single
  steps that turn the attribute on and off.
\<close>

theorem authenticated_state_machine_witness:
  "\<not> is_authenticated
       (run [(answers (PDict [(''success'', PBool True)]), Login ''user@example.com'' ''secret''),
             (offline, GetDeas), (offline, Logout)]
          (TrashMailClient ''https://trashmail.com'' ''en''))
   \<and> username
       (run [(answers (PDict [(''success'', PBool True)]), Login ''user@example.com'' ''secret''),
             (offline, GetDeas), (offline, Logout)]
          (TrashMailClient ''https://trashmail.com'' ''en'')) = None
   \<and> \<not> is_authenticated (TrashMailClient ''https://trashmail.com'' ''en'')
   \<and> is_authenticated (step (answers (PDict [(''success'', PBool True)]))
         (Login ''user@example.com'' ''secret'') (TrashMailClient ''https://trashmail.com'' ''en''))
   \<and> is_login (Login ''user@example.com'' ''secret'')
   \<and> is_authenticated ((TrashMailClient ''https://trashmail.com'' ''en'')
         \<lparr>p_authenticated := True, p_username := Some ''user@example.com''\<rparr>)
   \<and> \<not> is_authenticated (step offline Logout ((TrashMailClient ''https://trashmail.com'' ''en'')
         \<lparr>p_authenticated := True, p_username := Some ''user@example.com''\<rparr>))"
  using authenticated_state_machine
          [of "[(answers (PDict [(''success'', PBool True)]), Login ''user@example.com'' ''secret''),
                (offline, GetDeas), (offline, Logout)]"
              "''https://trashmail.com''" "''en''"
              "TrashMailClient ''https://trashmail.com'' ''en''"
              "answers (PDict [(''success'', PBool True)])"
              "Login ''user@example.com'' ''secret''" "''user@example.com''" "''tmpat_abc''"]
        authenticated_state_machine
          [of "[]" "''https://trashmail.com''" "''en''"
              "(TrashMailClient ''https://trashmail.com'' ''en'')
                 \<lparr>p_authenticated := True, p_username := Some ''user@example.com''\<rparr>"
              offline Logout "''user@example.com''" "''tmpat_abc''"]
  by (simp add: is_authenticated_def username_def TrashMailClient_def login_def login_try_def
        logout_def api_call_def get_deas_def answers_def offline_def Let_def
        TrashMailClient_safe_json_def response_json_def py_get_def
        build_url_no_keywords post_args_def)

subsection \<open>C6: the URL and parameter builder\<close>

text \<open>
  C6, as amended: for every command string, flag \<^verbatim>\<open>api\<close> and extra keyword arguments of
  which none bears the name of a parameter of the builder (\<^verbatim>\<open>self\<close>, \<^verbatim>\<open>cmd\<close>, \<^verbatim>\<open>api\<close> for
  \<^verbatim>\<open>_build_url\<close>; \<^verbatim>\<open>api\<close>, \<^verbatim>\<open>lang\<close>, \<^verbatim>\<open>cmd\<close> for \<^verbatim>\<open>build_url\<close>), the builder returns the base
  URL followed by \<^verbatim>\<open>/\<close> and parameters that hold every extra argument, \<^verbatim>\<open>api\<close> set to 1
  exactly when the flag is true, \<^verbatim>\<open>cmd\<close> set to the command exactly when it is not empty,
  and \<^verbatim>\<open>lang\<close> set to the language; in \<^verbatim>\<open>_build_url\<close>, where \<^verbatim>\<open>lang\<close> is no parameter, an
  extra argument named \<^verbatim>\<open>lang\<close> takes the place of the language. An extra argument that
  bears the name of a parameter makes the call raise \<^verbatim>\<open>TypeError\<close>.
\<close>

theorem build_url_params:
  assumes "distinct (map fst extra)"
  shows
   "(\<not> has_key extra ''self'' \<and> \<not> has_key extra ''cmd'' \<and> \<not> has_key extra ''api'' \<longrightarrow>
       (\<exists>b. TrashMailClient_build_url c cmd api extra = Inr b
          \<and> url b = base_url c @ ''/''
          \<and> (\<forall>k v. map_of extra k = Some v \<longrightarrow> map_of (params b) k = Some v)
          \<and> (\<not> has_key extra ''lang'' \<longrightarrow> map_of (params b) ''lang'' = Some (PStr (lang c)))
          \<and> map_of (params b) ''api'' = (if api then Some (PInt 1) else None)
          \<and> map_of (params b) ''cmd'' = (if cmd \<noteq> [] then Some (PStr cmd) else None)))
    \<and> (has_key extra ''self'' \<or> has_key extra ''cmd'' \<or> has_key extra ''api'' \<longrightarrow>
       (\<exists>msg. TrashMailClient_build_url c cmd api extra = Inl (TypeError msg)))
    \<and> (\<not> has_key extra ''api'' \<and> \<not> has_key extra ''lang'' \<and> \<not> has_key extra ''cmd'' \<longrightarrow>
       (\<exists>b. build_url cfg api lng (Some cmd) extra = Inr b
          \<and> url b = API_BASE_URL cfg @ ''/''
          \<and> (\<forall>k v. map_of extra k = Some v \<longrightarrow> map_of (params b) k = Some v)
          \<and> map_of (params b) ''lang'' = Some (PStr lng)
          \<and> map_of (params b) ''api'' = (if api then Some (PInt 1) else None)
          \<and> map_of (params b) ''cmd'' = (if cmd \<noteq> [] then Some (PStr cmd) else None)))
    \<and> (has_key extra ''api'' \<or> has_key extra ''lang'' \<or> has_key extra ''cmd'' \<longrightarrow>
       (\<exists>msg. build_url cfg api lng (Some cmd) extra = Inl (TypeError msg)))"
proof -
  have m: "keyword_clash ''TrashMailClient._build_url'' [''self'', ''cmd'', ''api''] extra = None"
    if "\<not> has_key extra ''self''" "\<not> has_key extra ''cmd''" "\<not> has_key extra ''api''"
    using that by (simp add: keyword_clash_None)
  have f: "keyword_clash ''build_url'' [''api'', ''lang'', ''cmd''] extra = None"
    if "\<not> has_key extra ''api''" "\<not> has_key extra ''lang''" "\<not> has_key extra ''cmd''"
    using that by (simp add: keyword_clash_None)
  have a: "\<not> has_key extra ''self'' \<and> \<not> has_key extra ''cmd'' \<and> \<not> has_key extra ''api'' \<longrightarrow>
       (\<exists>b. TrashMailClient_build_url c cmd api extra = Inr b
          \<and> url b = base_url c @ ''/''
          \<and> (\<forall>k v. map_of extra k = Some v \<longrightarrow> map_of (params b) k = Some v)
          \<and> (\<not> has_key extra ''lang'' \<longrightarrow> map_of (params b) ''lang'' = Some (PStr (lang c)))
          \<and> map_of (params b) ''api'' = (if api then Some (PInt 1) else None)
          \<and> map_of (params b) ''cmd'' = (if cmd \<noteq> [] then Some (PStr cmd) else None))"
  proof (intro impI)
    assume h: "\<not> has_key extra ''self'' \<and> \<not> has_key extra ''cmd'' \<and> \<not> has_key extra ''api''"
    then have n: "map_of extra ''cmd'' = None" "map_of extra ''api'' = None"
      by (simp_all add: has_key_def)
    from h have "keyword_clash ''TrashMailClient._build_url'' [''self'', ''cmd'', ''api''] extra
        = None"
      by (simp add: m)
    with assms n show "\<exists>b. TrashMailClient_build_url c cmd api extra = Inr b
          \<and> url b = base_url c @ ''/''
          \<and> (\<forall>k v. map_of extra k = Some v \<longrightarrow> map_of (params b) k = Some v)
          \<and> (\<not> has_key extra ''lang'' \<longrightarrow> map_of (params b) ''lang'' = Some (PStr (lang c)))
          \<and> map_of (params b) ''api'' = (if api then Some (PInt 1) else None)
          \<and> map_of (params b) ''cmd'' = (if cmd \<noteq> [] then Some (PStr cmd) else None)"
      by (cases "map_of extra ''lang''")
         (simp_all add: TrashMailClient_build_url_def Let_def map_of_dict_update update_conv'
            map_add_def has_key_def)
  qed
  have b: "has_key extra ''self'' \<or> has_key extra ''cmd'' \<or> has_key extra ''api'' \<longrightarrow>
       (\<exists>msg. TrashMailClient_build_url c cmd api extra = Inl (TypeError msg))"
  proof (intro impI)
    assume "has_key extra ''self'' \<or> has_key extra ''cmd'' \<or> has_key extra ''api''"
    then have "keyword_clash ''TrashMailClient._build_url'' [''self'', ''cmd'', ''api''] extra
        \<noteq> None"
      by (auto simp: keyword_clash_None)
    then obtain msg where
      "keyword_clash ''TrashMailClient._build_url'' [''self'', ''cmd'', ''api''] extra
         = Some (TypeError msg)"
      using keyword_clash_Some by blast
    then have "TrashMailClient_build_url c cmd api extra = Inl (TypeError msg)"
      by (simp add: TrashMailClient_build_url_def)
    then show "\<exists>msg. TrashMailClient_build_url c cmd api extra = Inl (TypeError msg)"
      by blast
  qed
  have c: "\<not> has_key extra ''api'' \<and> \<not> has_key extra ''lang'' \<and> \<not> has_key extra ''cmd'' \<longrightarrow>
       (\<exists>b. build_url cfg api lng (Some cmd) extra = Inr b
          \<and> url b = API_BASE_URL cfg @ ''/''
          \<and> (\<forall>k v. map_of extra k = Some v \<longrightarrow> map_of (params b) k = Some v)
          \<and> map_of (params b) ''lang'' = Some (PStr lng)
          \<and> map_of (params b) ''api'' = (if api then Some (PInt 1) else None)
          \<and> map_of (params b) ''cmd'' = (if cmd \<noteq> [] then Some (PStr cmd) else None))"
  proof (intro impI)
    assume h: "\<not> has_key extra ''api'' \<and> \<not> has_key extra ''lang'' \<and> \<not> has_key extra ''cmd''"
    then have n: "map_of extra ''api'' = None" "map_of extra ''lang'' = None"
        "map_of extra ''cmd'' = None"
      by (simp_all add: has_key_def)
    from h have "keyword_clash ''build_url'' [''api'', ''lang'', ''cmd''] extra = None"
      by (simp add: f)
    with assms n show "\<exists>b. build_url cfg api lng (Some cmd) extra = Inr b
          \<and> url b = API_BASE_URL cfg @ ''/''
          \<and> (\<forall>k v. map_of extra k = Some v \<longrightarrow> map_of (params b) k = Some v)
          \<and> map_of (params b) ''lang'' = Some (PStr lng)
          \<and> map_of (params b) ''api'' = (if api then Some (PInt 1) else None)
          \<and> map_of (params b) ''cmd'' = (if cmd \<noteq> [] then Some (PStr cmd) else None)"
      by (simp add: build_url_def Let_def map_of_dict_update update_conv' map_add_def)
  qed
  have d: "has_key extra ''api'' \<or> has_key extra ''lang'' \<or> has_key extra ''cmd'' \<longrightarrow>
       (\<exists>msg. build_url cfg api lng (Some cmd) extra = Inl (TypeError msg))"
  proof (intro impI)
    assume "has_key extra ''api'' \<or> has_key extra ''lang'' \<or> has_key extra ''cmd''"
    then have "keyword_clash ''build_url'' [''api'', ''lang'', ''cmd''] extra \<noteq> None"
      by (auto simp: keyword_clash_None)
    then obtain msg where
      "keyword_clash ''build_url'' [''api'', ''lang'', ''cmd''] extra = Some (TypeError msg)"
      using keyword_clash_Some by blast
    then have "build_url cfg api lng (Some cmd) extra = Inl (TypeError msg)"
      by (simp add: build_url_def)
    then show "\<exists>msg. build_url cfg api lng (Some cmd) extra = Inl (TypeError msg)"
      by blast
  qed
  from a b c d show ?thesis by blast
qed

text \<open>
  The login command with one extra argument \<^verbatim>\<open>page\<close>, and with one extra argument that
  bears the name of a parameter.
\<close>

theorem build_url_params_witness:
  "distinct (map fst [(''page'', PInt 2)])
   \<and> \<not> has_key [(''page'', PInt 2)] ''self'' \<and> \<not> has_key [(''page'', PInt 2)] ''cmd''
   \<and> \<not> has_key [(''page'', PInt 2)] ''api'' \<and> \<not> has_key [(''page'', PInt 2)] ''lang''
   \<and> TrashMailClient_build_url (TrashMailClient ''https://trashmail.com'' ''en'') ''login'' True
        [(''page'', PInt 2)]
       = Inr \<lparr>url = ''https://trashmail.com/'',
              params = [(''lang'', PStr ''en''), (''api'', PInt 1), (''cmd'', PStr ''login''),
                        (''page'', PInt 2)]\<rparr>
   \<and> build_url \<lparr>API_BASE_URL = ''https://trashmail.com'', DEFAULT_LANG = ''en''\<rparr>
        True ''de'' (Some ''login'') [(''page'', PInt 2)]
       = Inr \<lparr>url = ''https://trashmail.com/'',
              params = [(''lang'', PStr ''de''), (''api'', PInt 1), (''cmd'', PStr ''login''),
                        (''page'', PInt 2)]\<rparr>
   \<and> distinct (map fst [(''cmd'', PStr ''logout'')])
   \<and> has_key [(''cmd'', PStr ''logout'')] ''cmd''
   \<and> (\<exists>msg. TrashMailClient_build_url (TrashMailClient ''https://trashmail.com'' ''en'') ''login''
          True [(''cmd'', PStr ''logout'')] = Inl (TypeError msg))
   \<and> (\<exists>msg. build_url \<lparr>API_BASE_URL = ''https://trashmail.com'', DEFAULT_LANG = ''en''\<rparr>
          True ''de'' (Some ''login'') [(''cmd'', PStr ''logout'')] = Inl (TypeError msg))"
  using build_url_params [of "[(''page'', PInt 2)]"
          "TrashMailClient ''https://trashmail.com'' ''en''" "''login''" True
          "\<lparr>API_BASE_URL = ''https://trashmail.com'', DEFAULT_LANG = ''en''\<rparr>" "''de''"]
        build_url_params [of "[(''cmd'', PStr ''logout'')]"
          "TrashMailClient ''https://trashmail.com'' ''en''" "''login''" True
          "\<lparr>API_BASE_URL = ''https://trashmail.com'', DEFAULT_LANG = ''en''\<rparr>" "''de''"]
  by (simp add: TrashMailClient_def has_key_def TrashMailClient_build_url_def build_url_def
        keyword_clash_def dict_update_def)

text \<open>
  C6 as it was stated fails where an extra argument meets a parameter: the builders do
  not return parameters with the key overridden, the call raises \<^verbatim>\<open>TypeError\<close>.
\<close>

theorem build_url_collision_counterexample:
  "TrashMailClient_build_url (TrashMailClient ''https://trashmail.com'' ''en'') ''login'' True
     [(''api'', PInt 7)]
     = Inl (TypeError (''TrashMailClient._build_url() got multiple values for argument ''
                       @ quoted ''api''))
   \<and> TrashMailClient_build_url (TrashMailClient ''https://trashmail.com'' ''en'') ''login'' True
     [(''cmd'', PStr ''logout'')]
     = Inl (TypeError (''TrashMailClient._build_url() got multiple values for argument ''
                       @ quoted ''cmd''))
   \<and> build_url \<lparr>API_BASE_URL = ''https://trashmail.com'', DEFAULT_LANG = ''en''\<rparr>
        True ''en'' (Some ''login'') [(''lang'', PStr ''fr'')]
     = Inl (TypeError (''build_url() got multiple values for argument '' @ quoted ''lang''))"
  by (simp add: TrashMailClient_build_url_def build_url_def keyword_clash_def)

subsection \<open>C7: the JSON-safe parser\<close>

text \<open>
  C7: in both modules \<^verbatim>\<open>_safe_json\<close> returns the parsed value when \<^verbatim>\<open>json()\<close> returns
  one, returns \<^verbatim>\<open>None\<close> when \<^verbatim>\<open>json()\<close> raises \<^verbatim>\<open>RequestsJSONDecodeError\<close>, and never
  raises that error itself.
\<close>

theorem safe_json_decode_error:
  "(json_result r = Parsed v \<longrightarrow> TrashMailClient_safe_json r = Inr v \<and> safe_json r = Inr v)
   \<and> (json_result r = Raised RequestsJSONDecodeError msg \<longrightarrow>
        TrashMailClient_safe_json r = Inr PNone \<and> safe_json r = Inr PNone)
   \<and> TrashMailClient_safe_json r \<noteq> Inl (PyException RequestsJSONDecodeError m)
   \<and> safe_json r \<noteq> Inl (PyException RequestsJSONDecodeError m)"
  by (auto simp: TrashMailClient_safe_json_def safe_json_def response_json_def
           split: json_outcome.splits)

text \<open>A body that parses, and one that does not.\<close>

theorem safe_json_decode_error_witness:
  "json_result \<lparr>json_result = Parsed (PDict [(''success'', PBool True)])\<rparr>
       = Parsed (PDict [(''success'', PBool True)])
   \<and> TrashMailClient_safe_json \<lparr>json_result = Parsed (PDict [(''success'', PBool True)])\<rparr>
       = Inr (PDict [(''success'', PBool True)])
   \<and> safe_json \<lparr>json_result = Parsed (PDict [(''success'', PBool True)])\<rparr>
       = Inr (PDict [(''success'', PBool True)])
   \<and> TrashMailClient_safe_json \<lparr>json_result = Raised RequestsJSONDecodeError ''Expecting value''\<rparr>
       = Inr PNone
   \<and> safe_json \<lparr>json_result = Raised RequestsJSONDecodeError ''Expecting value''\<rparr> = Inr PNone"
  using safe_json_decode_error [of "\<lparr>json_result = Parsed (PDict [(''success'', PBool True)])\<rparr>"
          "PDict [(''success'', PBool True)]" "''Expecting value''"]
        safe_json_decode_error [of "\<lparr>json_result = Raised RequestsJSONDecodeError ''Expecting value''\<rparr>"
          "PNone" "''Expecting value''"]
  by simp

subsection \<open>C8: a login that needs a second factor\<close>

text \<open>
  C8: there is a response, with \<^verbatim>\<open>success\<close> true and \<^verbatim>\<open>data.requires_2fa\<close> true, for which
  \<^verbatim>\<open>login\<close> returns \<^verbatim>\<open>False\<close> and yet leaves the client authenticated, its username set
  to the one that was tried.
\<close>

theorem login_2fa_False_but_authenticated:
  "\<exists>resp. json_result resp = Parsed (PDict [(''success'', PBool True),
                                             (''data'', PDict [(''requires_2fa'', PBool True)])])
     \<and> (\<forall>c u p. fst (login (\<lambda>s r. (Inr resp, s)) c u p) = Inr False
            \<and> is_authenticated (fst (snd (login (\<lambda>s r. (Inr resp, s)) c u p)))
            \<and> username (fst (snd (login (\<lambda>s r. (Inr resp, s)) c u p))) = Some u)"
  by (rule exI [of _ "\<lparr>json_result = Parsed (PDict [(''success'', PBool True),
                                             (''data'', PDict [(''requires_2fa'', PBool True)])])\<rparr>"])
     (simp add: login_def login_try_def build_url_no_keywords Let_def
        TrashMailClient_safe_json_def response_json_def py_get_def is_authenticated_def
        username_def)

subsection \<open>C9: the base64 helpers\<close>

text \<open>
  C9 says that \<^verbatim>\<open>_b64decode(_b64encode(b))\<close> is \<open>b\<close> for every byte string. The three
  bytes \<^verbatim>\<open>ff ff ff\<close> encode to \<^verbatim>\<open>____\<close>; the standard decoder, tried first, skips the four
  characters as foreign to its alphabet and returns the empty byte string without
  raising, so the URL-safe decoder is never reached.
\<close>

theorem b64_roundtrip_fails:
  "b64encode [0xff, 0xff, 0xff] = ''____''
   \<and> b64decode (b64encode [0xff, 0xff, 0xff]) = Inr []
   \<and> b64decode (b64encode [0xff, 0xff, 0xff]) \<noteq> Inr [0xff, 0xff, 0xff]"
  by code_simp

subsection \<open>C10: logout\<close>

text \<open>
  C10: from every state and whatever the network does, an exception of the logout call
  included, \<^verbatim>\<open>logout\<close> returns \<^verbatim>\<open>True\<close> and leaves the client not authenticated, without
  a username and with a new session.
\<close>

theorem logout_always_resets:
  "fst (logout http c) = Inr True
   \<and> is_authenticated (fst (snd (logout http c))) = False
   \<and> username (fst (snd (logout http c))) = None
   \<and> session (fst (snd (logout http c))) = requests_Session"
  by (simp add: logout_def is_authenticated_def username_def split: prod.splits)

end
